theory Spec2Isabelle
  imports Main
begin

unbundle bit_operations_syntax

section \<open>psfs: the process tree as a filesystem\<close>

text \<open>
  The development embeds \<^verbatim>\<open>src/psfs.py\<close> (class \<^verbatim>\<open>PsFS\<close>). Python 2 byte
  strings are \<^typ>\<open>string\<close>, Python integers are \<^typ>\<open>int\<close>. A method either returns
  a value, returns a negated errno, or lets an exception escape; all three are
  results of type \<open>error + 'a\<close>.
\<close>

subsection \<open>Errors\<close>

datatype exn = PidNotFound | IndexError

text \<open>
  \<open>ENOENT\<close> and \<open>EINVAL\<close> stand for the returned values \<^verbatim>\<open>-errno.ENOENT\<close> and
  \<^verbatim>\<open>-errno.EINVAL\<close>; \<open>Raised e\<close> is an exception that no handler of \<^verbatim>\<open>psfs.py\<close>
  catches and that therefore leaves the method.
\<close>

datatype error = ENOENT | EINVAL | Raised exn

subsection \<open>Python string primitives\<close>

text \<open>\<^verbatim>\<open>\d\<close> of the \<^verbatim>\<open>re\<close> module on byte strings without flags: \<^verbatim>\<open>[0-9]\<close>.\<close>

definition is_digit :: "char \<Rightarrow> bool" where
  "is_digit c = (48 \<le> (of_char c :: nat) \<and> (of_char c :: nat) \<le> 57)"

text \<open>\<^verbatim>\<open>\w\<close> of the \<^verbatim>\<open>re\<close> module on byte strings without flags: \<^verbatim>\<open>[a-zA-Z0-9_]\<close>.\<close>

definition is_word :: "char \<Rightarrow> bool" where
  "is_word c = (is_digit c
     \<or> (65 \<le> (of_char c :: nat) \<and> (of_char c :: nat) \<le> 90)
     \<or> (97 \<le> (of_char c :: nat) \<and> (of_char c :: nat) \<le> 122)
     \<or> c = CHR ''_'')"

text \<open>
  The pattern \<^verbatim>\<open>\w+\((?P<num>\d+)\)\<close> anchored at the head of a string. Both
  repetitions are greedy and may give characters back, but the character that
  has to follow \<^verbatim>\<open>\w+\<close> is an opening parenthesis, which is no word character,
  and the one that has to follow \<^verbatim>\<open>\d+\<close> is a closing parenthesis, which is no
  digit: each repetition can only stop at the end of its maximal run. The
  result is the text of group \<^verbatim>\<open>num\<close>.
\<close>

definition match_at :: "string \<Rightarrow> string option" where
  "match_at s =
     (let w = takeWhile is_word s; r1 = dropWhile is_word s in
      if w = [] then None
      else (case r1 of
              [] \<Rightarrow> None
            | c # r2 \<Rightarrow>
                if c \<noteq> CHR ''('' then None
                else (let d = takeWhile is_digit r2; r3 = dropWhile is_digit r2 in
                      if d = [] then None
                      else (case r3 of
                              [] \<Rightarrow> None
                            | c' # _ \<Rightarrow> if c' = CHR '')'' then Some d else None))))"

text \<open>
  \<^verbatim>\<open>re.search\<close>: the match at the leftmost position of the string where the
  pattern matches, \<open>None\<close> when it matches nowhere.
\<close>

fun re_search :: "string \<Rightarrow> string option" where
  "re_search [] = match_at []"
| "re_search (c # cs) =
     (case match_at (c # cs) of Some d \<Rightarrow> Some d | None \<Rightarrow> re_search cs)"

definition digit_val :: "char \<Rightarrow> int" where
  "digit_val c = int (of_char c) - 48"

text \<open>\<^verbatim>\<open>int(s)\<close> on a string of decimal digits (leading zeros allowed).\<close>

definition int_of_digits :: "string \<Rightarrow> int" where
  "int_of_digits s = foldl (\<lambda>acc c. acc * 10 + digit_val c) 0 s"

definition digit_char :: "nat \<Rightarrow> char" where
  "digit_char n = ''0123456789'' ! n"

text \<open>The decimal digits of a natural number, most significant first.\<close>

fun digits :: "nat \<Rightarrow> string" where
  "digits n = (if n < 10 then [digit_char n] else digits (n div 10) @ [digit_char (n mod 10)])"

declare digits.simps [simp del]

text \<open>\<^verbatim>\<open>str(i)\<close> on an integer.\<close>

definition str :: "int \<Rightarrow> string" where
  "str i = (if i < 0 then CHR ''-'' # digits (nat (- i)) else digits (nat i))"

text \<open>\<^verbatim>\<open>s.split(sep)\<close> with a one-character separator: never an empty list.\<close>

fun split_acc :: "char \<Rightarrow> string \<Rightarrow> string \<Rightarrow> string list" where
  "split_acc sep acc [] = [rev acc]"
| "split_acc sep acc (c # cs) =
     (if c = sep then rev acc # split_acc sep [] cs else split_acc sep (c # acc) cs)"

definition split :: "string \<Rightarrow> char \<Rightarrow> string list" where
  "split s sep = split_acc sep [] s"

text \<open>\<^verbatim>\<open>sep.join(xs)\<close>.\<close>

fun join :: "string \<Rightarrow> string list \<Rightarrow> string" where
  "join sep [] = []"
| "join sep [x] = x"
| "join sep (x # y # ys) = x @ sep @ join sep (y # ys)"

text \<open>
  \<^verbatim>\<open>"%<w>d" % n\<close>: the decimal text of \<open>n\<close>, padded on the left with blanks to
  width \<open>w\<close>.
\<close>

definition fmt_d :: "nat \<Rightarrow> int \<Rightarrow> string" where
  "fmt_d w n = replicate (w - length (str n)) CHR '' '' @ str n"

text \<open>
  \<^verbatim>\<open>"%0<w>d" % n\<close>: padded with zeros, which go between the sign and the digits.
\<close>

definition fmt_0d :: "nat \<Rightarrow> int \<Rightarrow> string" where
  "fmt_0d w n =
     (let sign = (if n < 0 then ''-'' else ''''); ds = digits (nat \<bar>n\<bar>) in
      sign @ replicate (w - length sign - length ds) CHR ''0'' @ ds)"

text \<open>\<^verbatim>\<open>xs[-k]\<close> for \<open>k > 0\<close>: \<^verbatim>\<open>IndexError\<close> when the sequence is shorter than \<open>k\<close>.\<close>

definition index_from_end :: "'a list \<Rightarrow> nat \<Rightarrow> error + 'a" where
  "index_from_end xs k =
     (if 0 < k \<and> k \<le> length xs then Inr (xs ! (length xs - k)) else Inl (Raised IndexError))"

text \<open>\<^verbatim>\<open>xs[i]\<close> for \<open>i \<ge> 0\<close>: \<^verbatim>\<open>IndexError\<close> when out of range.\<close>

definition index :: "'a list \<Rightarrow> nat \<Rightarrow> error + 'a" where
  "index xs i = (if i < length xs then Inr (xs ! i) else Inl (Raised IndexError))"

subsection \<open>The process table\<close>

text \<open>
  One dictionary returned by \<^verbatim>\<open>procpy\<close>, restricted to the keys that \<^verbatim>\<open>psfs.py\<close>
  reads. \<^verbatim>\<open>start\<close> and \<^verbatim>\<open>time\<close> are sequences that the code indexes by position.
\<close>

record proc =
  tid :: int
  ppid :: int
  ruser :: string
  cmd :: string
  cmdline :: "string list"
  pcpustr :: string
  pmemstr :: string
  ttynam :: string
  start :: "int list"
  time :: "int list"

text \<open>
  Modelled from the spec: the Snapshot Provider, that is the functions
  \<^verbatim>\<open>readproc\<close> and \<^verbatim>\<open>readproc_by_pid\<close> that \<^verbatim>\<open>procpy.py\<close> imports from the
  extension module \<^verbatim>\<open>_procpy\<close>, whose source is not available. The spec gives
  them as \<^verbatim>\<open>listAll() -> sequence<ProcessRecord>\<close> and
  \<^verbatim>\<open>byIdentifier(pid) -> ProcessRecord | absent\<close>; they are parameters of every
  operation, and nothing relates the two. \<open>None\<close> is the absent record.
\<close>

record snapshot =
  readproc :: "proc list"
  readproc_by_pid :: "int \<Rightarrow> proc option"

subsection \<open>Class \<^verbatim>\<open>PsFS\<close>\<close>

text \<open>\<^verbatim>\<open>stat.S_IFDIR\<close> is \<^verbatim>\<open>0040000\<close> and \<^verbatim>\<open>stat.S_IFREG\<close> is \<^verbatim>\<open>0100000\<close>.\<close>

definition S_IFDIR :: int where
  "S_IFDIR = 16384"

definition S_IFREG :: int where
  "S_IFREG = 32768"

text \<open>\<^verbatim>\<open>fuse.Direntry(name)\<close>; the type of a fresh entry is 0.\<close>

record Direntry =
  name :: string
  type :: int

definition Direntry_init :: "string \<Rightarrow> Direntry" where
  "Direntry_init n = \<lparr>name = n, type = 0\<rparr>"

record PsStat =
  st_mode :: int
  st_ino :: int
  st_dev :: int
  st_nlink :: int
  st_uid :: int
  st_gid :: int
  st_size :: int
  st_atime :: int
  st_mtime :: int
  st_ctime :: int
  st_blocks :: int
  st_blksize :: int
  st_rdev :: int

definition PsStat_init :: PsStat where
  "PsStat_init = \<lparr>st_mode = 0, st_ino = 0, st_dev = 0, st_nlink = 0, st_uid = 0, st_gid = 0,
     st_size = 0, st_atime = 0, st_mtime = 0, st_ctime = 0, st_blocks = 0, st_blksize = 0,
     st_rdev = 0\<rparr>"

definition infoFiles :: "string list" where
  "infoFiles = [''USER'', ''PID'', ''CPU'', ''MEM'', ''TTY'', ''START'', ''TIME'', ''COMMAND'']"

text \<open>
  \<^verbatim>\<open>re.search\<close> returns \<^verbatim>\<open>None\<close> when nothing matches; \<^verbatim>\<open>.group\<close> on it raises
  the \<^verbatim>\<open>AttributeError\<close> that the handler turns into 0.
\<close>

definition getPid :: "string \<Rightarrow> int" where
  "getPid procName = (case re_search procName of None \<Rightarrow> 0 | Some num \<Rightarrow> int_of_digits num)"

text \<open>
  An absent record leaves \<^verbatim>\<open>readproc_by_pid\<close> as an exception (the docstring of
  \<^verbatim>\<open>ProcRT\<close> in \<^verbatim>\<open>procpy.py\<close> shows \<^verbatim>\<open>procpy.error: PID not found.\<close>).
  Every caller in \<^verbatim>\<open>psfs.py\<close> subscripts the result at once and none has a handler,
  so the call ends in an exception in any case; \<open>PidNotFound\<close> stands for it.
\<close>

definition getProcessInfo :: "snapshot \<Rightarrow> int \<Rightarrow> error + proc" where
  "getProcessInfo snap pid =
     (case readproc_by_pid snap pid of None \<Rightarrow> Inl (Raised PidNotFound) | Some p \<Rightarrow> Inr p)"

definition getChildProcessInfo :: "snapshot \<Rightarrow> int \<Rightarrow> proc list" where
  "getChildProcessInfo snap pid = filter (\<lambda>p. ppid p = pid) (readproc snap)"

definition isExist :: "snapshot \<Rightarrow> string \<Rightarrow> string \<Rightarrow> error + bool" where
  "isExist snap parent child =
     (let ppid' = getPid parent; pid = getPid child in
      if ppid' = 0 \<or> pid = 0 then Inr False
      else (case getProcessInfo snap pid of
              Inl e \<Rightarrow> Inl e
            | Inr info \<Rightarrow> if ppid info \<noteq> ppid' then Inr False else Inr True))"

definition makeProcName :: "string \<Rightarrow> int \<Rightarrow> string" where
  "makeProcName procName pid = procName @ ''('' @ str pid @ '')''"

text \<open>
  The generator \<^verbatim>\<open>readdir\<close>, as the list of the entries it yields when it is
  run to its end. \<^verbatim>\<open>0444\<close> is 292.
\<close>

definition readdir :: "snapshot \<Rightarrow> string \<Rightarrow> int \<Rightarrow> Direntry list" where
  "readdir snap path offset =
     [Direntry_init ''.'', Direntry_init ''..''] @
     (if path = ''/'' then [(Direntry_init ''init(1)'')\<lparr>type := S_IFDIR\<rparr>]
      else map (\<lambda>info. (Direntry_init info)\<lparr>type := S_IFREG OR 292\<rparr>) infoFiles @
           (let elem = split path CHR ''/'';
                pid = getPid (last elem);
                results = getChildProcessInfo snap pid
            in map (\<lambda>child. (Direntry_init (makeProcName (cmd child) (tid child)))
                                \<lparr>type := S_IFDIR\<rparr>) results))"

definition getFileInfo :: "snapshot \<Rightarrow> int \<Rightarrow> string \<Rightarrow> error + string" where
  "getFileInfo snap pid info =
     (case getProcessInfo snap pid of
        Inl e \<Rightarrow> Inl e
      | Inr p \<Rightarrow>
          if info = ''PID'' then Inr (str (tid p))
          else if info = ''USER'' then Inr (ruser p)
          else if info = ''CPU'' then Inr (pcpustr p)
          else if info = ''MEM'' then Inr (pmemstr p)
          else if info = ''TTY'' then Inr (ttynam p)
          else if info = ''START'' then
            (case index (start p) 3 of
               Inl e \<Rightarrow> Inl e
             | Inr h \<Rightarrow> (case index (start p) 4 of
                           Inl e \<Rightarrow> Inl e
                         | Inr m \<Rightarrow> Inr (fmt_0d 2 h @ '':'' @ fmt_0d 2 m)))
          else if info = ''TIME'' then
            (case index (time p) 0 of
               Inl e \<Rightarrow> Inl e
             | Inr m \<Rightarrow> (case index (time p) 1 of
                           Inl e \<Rightarrow> Inl e
                         | Inr s \<Rightarrow> Inr (fmt_d 4 m @ '':'' @ fmt_0d 2 s)))
          else if info = ''COMMAND'' then Inr (join '' '' (cmdline p))
          else Inr [])"

text \<open>
  The loop over \<^verbatim>\<open>infoFiles\<close> returns at the first name equal to the last path
  element: \<^const>\<open>find\<close>. \<^verbatim>\<open>0444\<close> is 292 and \<^verbatim>\<open>0555\<close> is 365.
\<close>

definition getattr :: "snapshot \<Rightarrow> string \<Rightarrow> error + PsStat" where
  "getattr snap path =
     (let st = PsStat_init; elem = split path CHR ''/'' in
      case find (\<lambda>info. last elem = info) infoFiles of
        Some info \<Rightarrow>
          (case index_from_end elem 2 of
             Inl e \<Rightarrow> Inl e
           | Inr seg \<Rightarrow>
               (let pid = getPid seg in
                case getFileInfo snap pid info of
                  Inl e \<Rightarrow> Inl e
                | Inr txt \<Rightarrow>
                    Inr (st\<lparr>st_mode := S_IFREG OR 292, st_ino := 0,
                            st_size := int (length txt) + 1\<rparr>)))
      | None \<Rightarrow>
          if path = ''/'' then Inr (st\<lparr>st_mode := S_IFDIR OR 365, st_nlink := 2\<rparr>)
          else if path = ''/init(1)'' then
            Inr (st\<lparr>st_mode := S_IFDIR OR 365, st_ino := 1, st_nlink := 2\<rparr>)
          else (case index_from_end elem 2 of
                  Inl e \<Rightarrow> Inl e
                | Inr parent \<Rightarrow>
                    (case isExist snap parent (last elem) of
                       Inl e \<Rightarrow> Inl e
                     | Inr b \<Rightarrow>
                         if b then Inr (st\<lparr>st_mode := S_IFDIR OR 365, st_nlink := 1\<rparr>)
                         else Inl ENOENT)))"

definition "open" :: "snapshot \<Rightarrow> string \<Rightarrow> int \<Rightarrow> error + int" where
  "open snap path flags =
     (if path = ''/'' then Inl ENOENT
      else (let elem = split path CHR ''/'' in
            case find (\<lambda>info. last elem = info) infoFiles of
              Some info \<Rightarrow> Inr 0
            | None \<Rightarrow> Inl ENOENT))"

definition read :: "snapshot \<Rightarrow> string \<Rightarrow> int \<Rightarrow> int \<Rightarrow> error + string" where
  "read snap path size' offset =
     (if path = ''/'' then Inl ENOENT
      else (let elem = split path CHR ''/'' in
            case find (\<lambda>info. last elem = info) infoFiles of
              Some info \<Rightarrow>
                (case index_from_end elem 2 of
                   Inl e \<Rightarrow> Inl e
                 | Inr seg \<Rightarrow>
                     (let pid = getPid seg in
                      if pid = 0 then Inl ENOENT
                      else (case getFileInfo snap pid info of
                              Inl e \<Rightarrow> Inl e
                            | Inr txt \<Rightarrow> Inr (txt @ [CHR 0x0A]))))
            | None \<Rightarrow> Inl ENOENT))"

text \<open>
  \<^verbatim>\<open>rmdir\<close> returns its result together with the shell commands it has handed to
  \<^verbatim>\<open>os.system\<close>, in order.
\<close>

definition rmdir :: "snapshot \<Rightarrow> string \<Rightarrow> (error + int) \<times> string list" where
  "rmdir snap path =
     (let elem = split path CHR ''/'' in
      if last elem = ''init(1)'' then (Inl EINVAL, [])
      else (let pid = getPid (last elem) in
            if pid = 0 then (Inl EINVAL, [])
            else (let killcmd = ''kill -9 '' @ str pid in (Inr 0, [killcmd]))))"

subsection \<open>Example process tables\<close>

definition p_init :: proc where
  "p_init = \<lparr>tid = 1, ppid = 0, ruser = ''root'', cmd = ''init'', cmdline = [''/sbin/init''],
     pcpustr = ''0.0'', pmemstr = ''0.1'', ttynam = ''?'', start = [2008, 6, 1, 9, 5, 0],
     time = [0, 3]\<rparr>"

definition p_sh :: proc where
  "p_sh = \<lparr>tid = 42, ppid = 1, ruser = ''root'', cmd = ''sh'', cmdline = [''sh'', ''-i''],
     pcpustr = ''0.0'', pmemstr = ''0.2'', ttynam = ''pts/0'', start = [2008, 6, 1, 9, 7, 30],
     time = [7, 5]\<rparr>"

definition p_sshd :: proc where
  "p_sshd = \<lparr>tid = 7, ppid = 1, ruser = ''root'', cmd = ''sshd'', cmdline = [''/usr/sbin/sshd''],
     pcpustr = ''0.0'', pmemstr = ''0.3'', ttynam = ''?'', start = [2008, 6, 1, 9, 5, 2],
     time = [0, 1]\<rparr>"

definition p_bogus :: proc where
  "p_bogus = \<lparr>tid = 42, ppid = 7, ruser = ''root'', cmd = ''bash'', cmdline = [''-bash''],
     pcpustr = ''0.0'', pmemstr = ''0.2'', ttynam = ''pts/1'', start = [2008, 6, 1, 10, 0, 0],
     time = [0, 0]\<rparr>"

definition p_systemd :: proc where
  "p_systemd = \<lparr>tid = 1, ppid = 0, ruser = ''root'', cmd = ''systemd'',
     cmdline = [''/sbin/init''], pcpustr = ''0.0'', pmemstr = ''0.1'', ttynam = ''?'',
     start = [2008, 6, 1, 9, 5, 0], time = [0, 3]\<rparr>"

text \<open>Scenario A of the spec: pid 1 (\<^verbatim>\<open>init\<close>) and its child pid 42 (\<^verbatim>\<open>sh\<close>).\<close>

definition scenario_A :: snapshot where
  "scenario_A = \<lparr>readproc = [p_init, p_sh], readproc_by_pid = map_of [(1, p_init), (42, p_sh)]\<rparr>"

text \<open>Scenario B: pid 42 has gone.\<close>

definition scenario_B :: snapshot where
  "scenario_B = \<lparr>readproc = [p_init], readproc_by_pid = map_of [(1, p_init)]\<rparr>"

text \<open>Scenario D: pid 42 is alive and its parent is pid 7, not pid 1.\<close>

definition scenario_D :: snapshot where
  "scenario_D = \<lparr>readproc = [p_init, p_sshd, p_bogus],
     readproc_by_pid = map_of [(1, p_init), (7, p_sshd), (42, p_bogus)]\<rparr>"

text \<open>A table whose pid 1 runs under the command name \<^verbatim>\<open>systemd\<close>.\<close>

definition scenario_systemd :: snapshot where
  "scenario_systemd = \<lparr>readproc = [p_systemd], readproc_by_pid = map_of [(1, p_systemd)]\<rparr>"

text \<open>
  The byte range that the spec asks \<^verbatim>\<open>Read\<close> to return: the intersection of
  \<open>[offset, offset + size)\<close> with the data.
\<close>

definition byte_range :: "string \<Rightarrow> int \<Rightarrow> int \<Rightarrow> string" where
  "byte_range data offset size' = take (nat size') (drop (nat offset) data)"

section \<open>Properties\<close>

subsection \<open>Decimal text\<close>

lemma digit_char_table:
  "\<forall>n \<in> set [0 ..< 10]. digit_val (digit_char n) = int n \<and> is_digit (digit_char n)"
  by (simp add: upt_rec digit_val_def digit_char_def is_digit_def)

lemma digit_val_digit_char: "n < 10 \<Longrightarrow> digit_val (digit_char n) = int n"
  using digit_char_table by simp

lemma is_digit_digit_char: "n < 10 \<Longrightarrow> is_digit (digit_char n)"
  using digit_char_table by simp

lemma digits_nonempty: "digits n \<noteq> []"
  by (subst digits.simps) simp

lemma digits_all_digit: "\<forall>c \<in> set (digits n). is_digit c"
proof (induction n rule: digits.induct)
  case (1 n)
  show ?case
  proof (cases "n < 10")
    case True
    then show ?thesis by (subst digits.simps) (simp add: is_digit_digit_char)
  next
    case False
    with 1 show ?thesis by (subst digits.simps) (simp add: is_digit_digit_char)
  qed
qed

lemma int_of_digits_snoc: "int_of_digits (s @ [c]) = int_of_digits s * 10 + digit_val c"
  by (simp add: int_of_digits_def)

text \<open>\<^verbatim>\<open>int(str(n)) == n\<close> for a natural number.\<close>

lemma int_of_digits_digits: "int_of_digits (digits n) = int n"
proof (induction n rule: digits.induct)
  case (1 n)
  show ?case
  proof (cases "n < 10")
    case True
    then show ?thesis
      by (subst digits.simps) (simp add: int_of_digits_def digit_val_digit_char)
  next
    case False
    then have "int_of_digits (digits n) = int (n div 10) * 10 + int (n mod 10)"
      using 1 by (subst digits.simps) (simp add: int_of_digits_snoc digit_val_digit_char)
    also have "\<dots> = int n" by presburger
    finally show ?thesis .
  qed
qed

subsection \<open>The segment pattern\<close>

lemma not_word_paren: "\<not> is_word CHR ''(''"
  by (simp add: is_word_def is_digit_def)

lemma not_digit_paren: "\<not> is_digit CHR '')''"
  by (simp add: is_digit_def)

text \<open>A run of word characters, a parenthesised run of digits: the pattern matches.\<close>

lemma match_at_all_word:
  assumes "w \<noteq> []" "\<forall>c \<in> set w. is_word c" "d \<noteq> []" "\<forall>c \<in> set d. is_digit c"
  shows "match_at (w @ CHR ''('' # d @ CHR '')'' # rest) = Some d"
proof -
  have tw: "takeWhile is_word (w @ CHR ''('' # d @ CHR '')'' # rest) = w"
    using assms(2) by (simp add: takeWhile_append2 not_word_paren)
  have dw: "dropWhile is_word (w @ CHR ''('' # d @ CHR '')'' # rest) = CHR ''('' # d @ CHR '')'' # rest"
    using assms(2) by (simp add: dropWhile_append2 not_word_paren)
  have td: "takeWhile is_digit (d @ CHR '')'' # rest) = d"
    using assms(4) by (simp add: takeWhile_append2 not_digit_paren)
  have dd: "dropWhile is_digit (d @ CHR '')'' # rest) = CHR '')'' # rest"
    using assms(4) by (simp add: dropWhile_append2 not_digit_paren)
  show ?thesis
    unfolding match_at_def using assms(1,3) by (simp add: tw dw td dd Let_def)
qed

text \<open>
  A prefix without an opening parenthesis that holds a non-word character: no match
  at its head.
\<close>

lemma match_at_not_all_word:
  assumes "\<not> (\<forall>c \<in> set w. is_word c)" "CHR ''('' \<notin> set w"
  shows "match_at (w @ rest) = None"
proof -
  from assms(1) have "\<exists>x \<in> set w. \<not> is_word x" by simp
  then obtain a c b where w0: "w = a @ c # b" "\<not> is_word c" "\<forall>x \<in> set a. \<not> \<not> is_word x"
    by (rule split_list_first_propE)
  then have w: "w = a @ c # b" "\<forall>x \<in> set a. is_word x" "\<not> is_word c" by simp_all
  have tw: "takeWhile is_word (w @ rest) = a" using w by (simp add: takeWhile_append2)
  have dw: "dropWhile is_word (w @ rest) = c # b @ rest" using w by (simp add: dropWhile_append2)
  have "c \<noteq> CHR ''(''" using w(1) assms(2) by auto
  then show ?thesis unfolding match_at_def by (simp add: tw dw Let_def)
qed

text \<open>
  Conversely, a match at the head of a string has that shape, so the text of group
  \<^verbatim>\<open>num\<close> is determined by the string.
\<close>

lemma match_at_SomeD:
  assumes "match_at s = Some d"
  shows "\<exists>w rest. s = w @ CHR ''('' # d @ CHR '')'' # rest \<and> w \<noteq> [] \<and> (\<forall>c \<in> set w. is_word c)
           \<and> d \<noteq> [] \<and> (\<forall>c \<in> set d. is_digit c)"
proof -
  obtain r2 where r1: "dropWhile is_word s = CHR ''('' # r2" and w: "takeWhile is_word s \<noteq> []"
    using assms by (auto simp: match_at_def Let_def split: list.splits if_splits)
  obtain rest where r3: "dropWhile is_digit r2 = CHR '')'' # rest"
    and d: "d = takeWhile is_digit r2" "d \<noteq> []"
    using assms r1 w by (auto simp: match_at_def Let_def split: list.splits if_splits)
  have "s = takeWhile is_word s @ dropWhile is_word s" by simp
  also have "\<dots> = takeWhile is_word s @ CHR ''('' # (takeWhile is_digit r2 @ dropWhile is_digit r2)"
    unfolding r1 by simp
  finally have "s = takeWhile is_word s @ CHR ''('' # d @ CHR '')'' # rest"
    unfolding r3 d(1) .
  moreover have "\<forall>c \<in> set (takeWhile is_word s). is_word c"
    by (auto dest: set_takeWhileD)
  moreover have "\<forall>c \<in> set d. is_digit c"
    unfolding d(1) by (auto dest: set_takeWhileD)
  ultimately show ?thesis using w d(2) by blast
qed

lemma re_search_encoded:
  assumes "n \<noteq> []" "CHR ''('' \<notin> set n" "is_word (last n)" "d \<noteq> []" "\<forall>c \<in> set d. is_digit c"
  shows "re_search (n @ CHR ''('' # d @ CHR '')'' # rest) = Some d"
  using assms(1,2,3)
proof (induction n)
  case Nil
  then show ?case by simp
next
  case (Cons x xs)
  show ?case
  proof (cases "\<forall>c \<in> set (x # xs). is_word c")
    case True
    then have "match_at ((x # xs) @ CHR ''('' # d @ CHR '')'' # rest) = Some d"
      using assms(4,5) by (intro match_at_all_word) auto
    then show ?thesis by simp
  next
    case False
    then have m: "match_at ((x # xs) @ CHR ''('' # d @ CHR '')'' # rest) = None"
      using Cons.prems(2) by (intro match_at_not_all_word) auto
    have "xs \<noteq> []" using False Cons.prems(3) by auto
    moreover have "CHR ''('' \<notin> set xs" using Cons.prems(2) by simp
    moreover have "is_word (last xs)" using Cons.prems(3) \<open>xs \<noteq> []\<close> by simp
    ultimately have "re_search (xs @ CHR ''('' # d @ CHR '')'' # rest) = Some d"
      by (rule Cons.IH)
    then show ?thesis using m by simp
  qed
qed

lemmas codec_eval = getPid_def match_at_def is_word_def is_digit_def int_of_digits_def
  digit_val_def makeProcName_def str_def digits.simps digit_char_def

subsection \<open>Path codec\<close>

text \<open>
  Claim C3, as amended. For every name \<open>n\<close> that is non-empty, holds no opening
  parenthesis and ends in a word character (a letter, a digit or an underscore), and
  every identifier \<open>i > 0\<close>, \<^verbatim>\<open>getPid\<close> applied to the segment \<^verbatim>\<open>makeProcName(n, i)\<close>
  gives back \<open>i\<close>. The code has no decoder for the name part of a segment.
\<close>

theorem C3_getPid_makeProcName:
  assumes "n \<noteq> []" and "CHR ''('' \<notin> set n" and "is_word (last n)" and "0 < i"
  shows "getPid (makeProcName n i) = i"
proof -
  have enc: "makeProcName n i = n @ CHR ''('' # digits (nat i) @ CHR '')'' # []"
    using assms(4) by (simp add: makeProcName_def str_def)
  have "re_search (n @ CHR ''('' # digits (nat i) @ CHR '')'' # []) = Some (digits (nat i))"
    using assms(1,2,3) digits_nonempty digits_all_digit by (rule re_search_encoded)
  then have "getPid (makeProcName n i) = int_of_digits (digits (nat i))"
    by (simp add: enc getPid_def)
  also have "\<dots> = i" using assms(4) by (simp add: int_of_digits_digits)
  finally show ?thesis .
qed

theorem C3_getPid_makeProcName_witness:
  "''sh'' \<noteq> [] \<and> CHR ''('' \<notin> set ''sh'' \<and> is_word (last ''sh'') \<and> (0::int) < 42
   \<and> getPid (makeProcName ''sh'' 42) = 42"
  using C3_getPid_makeProcName [of "''sh''" 42] by (simp add: is_word_def is_digit_def)

text \<open>
  Claim C3 as stated fails: the name \<^verbatim>\<open>g++\<close> is non-empty and holds no parenthesis
  and no slash, and the segment \<^verbatim>\<open>g++(5)\<close> decodes to 0, not to 5, because the pattern
  wants a word character right before the parenthesis.
\<close>

theorem C3_counterexample:
  "''g++'' \<noteq> [] \<and> CHR ''('' \<notin> set ''g++'' \<and> CHR '')'' \<notin> set ''g++'' \<and> CHR ''/'' \<notin> set ''g++''
   \<and> (0::int) < 5 \<and> makeProcName ''g++'' 5 = ''g++(5)'' \<and> getPid (makeProcName ''g++'' 5) = 0"
  by (simp add: codec_eval)

subsection \<open>Paths\<close>

lemma split_acc_nonempty: "split_acc sep acc s \<noteq> []"
  by (induction s arbitrary: acc) simp_all

lemma split_nonempty: "split s sep \<noteq> []"
  by (simp add: split_def split_acc_nonempty)

lemma split_acc_append:
  "split_acc sep acc (a @ sep # b) = split_acc sep acc a @ split_acc sep [] b"
  by (induction a arbitrary: acc) simp_all

lemma split_acc_no_sep: "sep \<notin> set s \<Longrightarrow> split_acc sep acc s = [rev acc @ s]"
  by (induction s arbitrary: acc) auto

text \<open>The elements of \<^verbatim>\<open>dir + '/' + info\<close> are those of \<^verbatim>\<open>dir\<close>, then \<^verbatim>\<open>info\<close>.\<close>

lemma split_attribute_path:
  assumes "CHR ''/'' \<notin> set info"
  shows "split (dir @ ''/'' @ info) CHR ''/'' = split dir CHR ''/'' @ [info]"
  using assms by (simp add: split_def split_acc_append split_acc_no_sep)

lemma infoFiles_no_slash: "info \<in> set infoFiles \<Longrightarrow> CHR ''/'' \<notin> set info"
  by (auto simp: infoFiles_def)

lemma getPid_infoFiles: "info \<in> set infoFiles \<Longrightarrow> getPid info = 0"
  by (auto simp: infoFiles_def getPid_def match_at_def is_word_def is_digit_def)

lemma getPid_empty: "getPid [] = 0"
  by (simp add: getPid_def match_at_def)

lemma split_root: "split ''/'' CHR ''/'' = [[], []]"
  by (simp add: split_def)

text \<open>The loop over \<^verbatim>\<open>infoFiles\<close> is a membership test that hands back the name.\<close>

lemma find_eq: "find (\<lambda>y. x = y) ys = (if x \<in> set ys then Some x else None)"
  by (induction ys) auto

lemma index_from_end_snoc:
  "index_from_end (xs @ [x]) 2 = (if xs = [] then Inl (Raised IndexError) else Inr (last xs))"
  by (cases xs rule: rev_cases) (simp_all add: index_from_end_def nth_append)

subsection \<open>Removing a directory\<close>

text \<open>
  Claim C1, as amended. For every path whose final segment is the literal root
  segment \<^verbatim>\<open>init(1)\<close>, which decodes to identifier 1, \<^verbatim>\<open>rmdir\<close> returns \<^verbatim>\<open>-EINVAL\<close>
  and hands no command to the shell, whatever the process table is.
\<close>

theorem C1_rmdir_root_segment:
  assumes "last (split path CHR ''/'') = ''init(1)''"
  shows "getPid (last (split path CHR ''/'')) = 1 \<and> rmdir snap path = (Inl EINVAL, [])"
proof
  show "getPid (last (split path CHR ''/'')) = 1"
    unfolding assms by (simp add: codec_eval)
  show "rmdir snap path = (Inl EINVAL, [])"
    using assms by (simp add: rmdir_def)
qed

theorem C1_rmdir_root_segment_witness:
  "last (split ''/init(1)'' CHR ''/'') = ''init(1)''
   \<and> getPid (last (split ''/init(1)'' CHR ''/'')) = 1
   \<and> rmdir scenario_B ''/init(1)'' = (Inl EINVAL, [])"
  using C1_rmdir_root_segment [of "''/init(1)''" scenario_B] by (simp add: split_def)

text \<open>
  Claim C1 as stated fails: the final segment of \<^verbatim>\<open>/systemd(1)\<close> decodes to
  identifier 1, and \<^verbatim>\<open>rmdir\<close> returns 0 after it has run \<^verbatim>\<open>kill -9 1\<close>.
\<close>

theorem C1_counterexample:
  "getPid (last (split ''/systemd(1)'' CHR ''/'')) = 1
   \<and> rmdir scenario_systemd ''/systemd(1)'' = (Inr 0, [''kill -9 1''])"
  by (simp add: rmdir_def split_def codec_eval)

text \<open>
  Claim C10. For every path whose final segment is not the literal \<^verbatim>\<open>init(1)\<close> and
  decodes to a positive identifier, \<^verbatim>\<open>rmdir\<close> hands exactly one command,
  \<^verbatim>\<open>kill -9\<close> followed by that identifier, to the shell and returns 0. The process
  table is arbitrary: neither the record of that identifier nor the other segments
  of the path are looked at.
\<close>

theorem C10_rmdir_kills_decoded_pid:
  assumes "last (split path CHR ''/'') \<noteq> ''init(1)''"
    and "0 < getPid (last (split path CHR ''/''))"
  shows "rmdir snap path = (Inr 0, [''kill -9 '' @ str (getPid (last (split path CHR ''/'')))])"
  using assms by (simp add: rmdir_def Let_def)

theorem C10_rmdir_kills_decoded_pid_witness:
  "last (split ''/nobody(9)/sh(42)'' CHR ''/'') \<noteq> ''init(1)''
   \<and> 0 < getPid (last (split ''/nobody(9)/sh(42)'' CHR ''/''))
   \<and> readproc_by_pid scenario_B 42 = None
   \<and> rmdir scenario_B ''/nobody(9)/sh(42)'' = (Inr 0, [''kill -9 42''])"
  using C10_rmdir_kills_decoded_pid [of "''/nobody(9)/sh(42)''" scenario_B]
  by (simp add: split_def scenario_B_def codec_eval)

subsection \<open>Opening\<close>

text \<open>
  Claim C5, as amended. For every path and every access mode, \<^verbatim>\<open>open\<close> succeeds if
  and only if the final element of the path is one of the eight attribute names, and
  returns \<^verbatim>\<open>-ENOENT\<close> otherwise. Neither the process table nor the access mode is
  looked at.
\<close>

theorem C5_open_by_final_name:
  "open snap path flags = (if last (split path CHR ''/'') \<in> set infoFiles then Inr 0 else Inl ENOENT)"
proof (cases "path = ''/''")
  case True
  then show ?thesis by (simp add: open_def split_root infoFiles_def)
next
  case False
  then show ?thesis by (simp add: open_def find_eq)
qed

theorem C5_open_by_final_name_witness:
  "open scenario_A ''/init(1)/sh(42)/USER'' 0 = Inr 0 \<and> open scenario_A ''/init(1)/sh(42)'' 0 = Inl ENOENT"
  using C5_open_by_final_name [of scenario_A "''/init(1)/sh(42)/USER''" 0]
    C5_open_by_final_name [of scenario_A "''/init(1)/sh(42)''" 0]
  by (simp add: split_def infoFiles_def)

text \<open>
  Claim C5 as stated fails: in scenario B no process 42 exists, the access mode 1 is
  \<^verbatim>\<open>O_WRONLY\<close>, and \<^verbatim>\<open>open\<close> succeeds.
\<close>

theorem C5_counterexample:
  "readproc_by_pid scenario_B 42 = None \<and> open scenario_B ''/init(1)/sh(42)/USER'' 1 = Inr 0"
  by (simp add: open_def split_def infoFiles_def scenario_B_def)

subsection \<open>Listing\<close>

text \<open>
  Claim C8, as amended. \<^verbatim>\<open>readdir\<close> at the root path yields, after \<^verbatim>\<open>.\<close> and \<^verbatim>\<open>..\<close>,
  exactly one entry, typed as a directory: the fixed segment \<^verbatim>\<open>init(1)\<close>, that is the
  encoding of the name \<^verbatim>\<open>init\<close> with identifier 1, for every process table and
  whatever command name the table gives for pid 1.
\<close>

theorem C8_readdir_root:
  "readdir snap ''/'' offset =
     [\<lparr>name = ''.'', type = 0\<rparr>, \<lparr>name = ''..'', type = 0\<rparr>,
      \<lparr>name = makeProcName ''init'' 1, type = S_IFDIR\<rparr>]"
  by (simp add: readdir_def Direntry_init_def codec_eval)

theorem C8_readdir_root_witness:
  "drop 2 (readdir scenario_systemd ''/'' 0) = [\<lparr>name = ''init(1)'', type = 16384\<rparr>]"
  using C8_readdir_root [of scenario_systemd 0] by (simp add: S_IFDIR_def codec_eval)

text \<open>
  Claim C8 as stated fails: when pid 1 runs under the command name \<^verbatim>\<open>systemd\<close>, the
  entry listed at the root is still \<^verbatim>\<open>init(1)\<close>, not the encoding \<^verbatim>\<open>systemd(1)\<close> of
  the current command name.
\<close>

theorem C8_counterexample:
  "readproc_by_pid scenario_systemd 1 = Some p_systemd
   \<and> makeProcName (cmd p_systemd) 1 = ''systemd(1)''
   \<and> map name (drop 2 (readdir scenario_systemd ''/'' 0)) = [''init(1)'']"
  by (simp add: readdir_def Direntry_init_def scenario_systemd_def p_systemd_def codec_eval)

text \<open>
  Claim C7, as amended. \<^verbatim>\<open>readdir\<close> never fails. For every path other than \<^verbatim>\<open>/\<close>,
  whether or not it denotes a live process directory, it yields \<^verbatim>\<open>.\<close>, \<^verbatim>\<open>..\<close>, the
  eight attribute names typed as read-only regular files, and then one directory
  entry for each record of the full table whose parent identifier equals the
  identifier decoded from the final path segment (0 when the segment does not
  decode).
\<close>

theorem C7_readdir_any_path:
  assumes "path \<noteq> ''/''"
  shows "readdir snap path offset =
     [\<lparr>name = ''.'', type = 0\<rparr>, \<lparr>name = ''..'', type = 0\<rparr>,
      \<lparr>name = ''USER'', type = 33060\<rparr>, \<lparr>name = ''PID'', type = 33060\<rparr>,
      \<lparr>name = ''CPU'', type = 33060\<rparr>, \<lparr>name = ''MEM'', type = 33060\<rparr>,
      \<lparr>name = ''TTY'', type = 33060\<rparr>, \<lparr>name = ''START'', type = 33060\<rparr>,
      \<lparr>name = ''TIME'', type = 33060\<rparr>, \<lparr>name = ''COMMAND'', type = 33060\<rparr>] @
     map (\<lambda>child. \<lparr>name = makeProcName (cmd child) (tid child), type = 16384\<rparr>)
       (filter (\<lambda>p. ppid p = getPid (last (split path CHR ''/''))) (readproc snap))"
  using assms
  by (simp add: readdir_def Direntry_init_def infoFiles_def S_IFREG_def S_IFDIR_def
      getChildProcessInfo_def Let_def)

theorem C7_readdir_any_path_witness:
  "''/init(1)/gone(99)'' \<noteq> ''/''
   \<and> readproc_by_pid scenario_A 99 = None
   \<and> map name (readdir scenario_A ''/init(1)/gone(99)'' 0) =
       [''.'', ''..'', ''USER'', ''PID'', ''CPU'', ''MEM'', ''TTY'', ''START'', ''TIME'', ''COMMAND'']"
  using C7_readdir_any_path [of "''/init(1)/gone(99)''" scenario_A 0]
  by (simp add: split_def scenario_A_def p_init_def p_sh_def codec_eval)

text \<open>
  Claim C7 as stated fails: the final segment of \<^verbatim>\<open>/nonsense\<close> does not decode, and
  \<^verbatim>\<open>readdir\<close> yields eleven entries, the last one being the process whose parent
  identifier is 0.
\<close>

theorem C7_counterexample:
  "getPid (last (split ''/nonsense'' CHR ''/'')) = 0
   \<and> map name (readdir scenario_A ''/nonsense'' 0) =
       [''.'', ''..'', ''USER'', ''PID'', ''CPU'', ''MEM'', ''TTY'', ''START'', ''TIME'', ''COMMAND'',
        ''init(1)'']"
  by (simp add: readdir_def Direntry_init_def infoFiles_def getChildProcessInfo_def split_def
      scenario_A_def p_init_def p_sh_def codec_eval)

subsection \<open>Rendering and reading\<close>

text \<open>With a live record, rendering never produces \<^verbatim>\<open>-ENOENT\<close>.\<close>

lemma getFileInfo_live_not_ENOENT:
  assumes "readproc_by_pid snap pid = Some p"
  shows "getFileInfo snap pid info \<noteq> Inl ENOENT"
  using assms
  by (simp add: getFileInfo_def getProcessInfo_def index_def split: sum.splits)

lemma getFileInfo_absent:
  assumes "readproc_by_pid snap pid = None"
  shows "getFileInfo snap pid info = Inl (Raised PidNotFound)"
  using assms by (simp add: getFileInfo_def getProcessInfo_def)

text \<open>\<^verbatim>\<open>read\<close> on \<^verbatim>\<open>dir + '/' + info\<close> depends on the last segment of \<^verbatim>\<open>dir\<close> only.\<close>

lemma read_attribute_path:
  assumes "info \<in> set infoFiles"
  shows "read snap (dir @ ''/'' @ info) size' offset =
     (if getPid (last (split dir CHR ''/'')) = 0 then Inl ENOENT
      else (case getFileInfo snap (getPid (last (split dir CHR ''/''))) info of
              Inl e \<Rightarrow> Inl e
            | Inr txt \<Rightarrow> Inr (txt @ [CHR 0x0A])))"
proof -
  have sp: "split (dir @ ''/'' @ info) CHR ''/'' = split dir CHR ''/'' @ [info]"
    by (rule split_attribute_path [OF infoFiles_no_slash [OF assms]])
  have ne: "dir @ ''/'' @ info \<noteq> ''/''"
    using assms by (auto simp: infoFiles_def append_eq_Cons_conv)
  show ?thesis
    unfolding read_def sp using assms ne
    by (simp add: find_eq index_from_end_snoc split_nonempty Let_def)
qed

lemma byte_range_whole:
  "offset = 0 \<Longrightarrow> int (length data) \<le> size' \<Longrightarrow> byte_range data offset size' = data"
  by (simp add: byte_range_def)

text \<open>
  Claim C4, as amended. For every path whose final element is an attribute name and
  whose second-to-last element decodes to a pid for which the attribute renders,
  \<^verbatim>\<open>read\<close> returns, for every size and every offset, the whole rendered text followed
  by a single newline. This is the requested byte range when the offset is 0 and the
  size exceeds the length of the text; \<^verbatim>\<open>read\<close> never cuts the data to the range.
\<close>

theorem C4_read_whole_text:
  assumes "last (split path CHR ''/'') \<in> set infoFiles"
    and "index_from_end (split path CHR ''/'') 2 = Inr seg"
    and "getPid seg \<noteq> 0"
    and "getFileInfo snap (getPid seg) (last (split path CHR ''/'')) = Inr txt"
  shows "read snap path size' offset = Inr (txt @ [CHR 0x0A])
     \<and> (offset = 0 \<and> int (length txt) < size'
          \<longrightarrow> read snap path size' offset = Inr (byte_range (txt @ [CHR 0x0A]) offset size'))"
proof -
  have "path \<noteq> ''/''"
    using assms(1) by (auto simp: split_root infoFiles_def)
  then have r: "read snap path size' offset = Inr (txt @ [CHR 0x0A])"
    using assms by (simp add: read_def find_eq Let_def)
  show ?thesis
  proof (intro conjI impI)
    show "read snap path size' offset = Inr (txt @ [CHR 0x0A])" by (rule r)
  next
    assume "offset = 0 \<and> int (length txt) < size'"
    then have "byte_range (txt @ [CHR 0x0A]) offset size' = txt @ [CHR 0x0A]"
      by (intro byte_range_whole) simp_all
    then show "read snap path size' offset = Inr (byte_range (txt @ [CHR 0x0A]) offset size')"
      using r by simp
  qed
qed

theorem C4_read_whole_text_witness:
  "last (split ''/init(1)/sh(42)/USER'' CHR ''/'') \<in> set infoFiles
   \<and> index_from_end (split ''/init(1)/sh(42)/USER'' CHR ''/'') 2 = Inr ''sh(42)''
   \<and> getPid ''sh(42)'' \<noteq> 0
   \<and> getFileInfo scenario_A (getPid ''sh(42)'') ''USER'' = Inr ''root''
   \<and> read scenario_A ''/init(1)/sh(42)/USER'' 64 0 = Inr (''root'' @ [CHR 0x0A])
   \<and> byte_range (''root'' @ [CHR 0x0A]) 0 64 = ''root'' @ [CHR 0x0A]"
  using C4_read_whole_text [of "''/init(1)/sh(42)/USER''" "''sh(42)''" scenario_A "''root''" 64 0]
  by (simp add: split_def infoFiles_def index_from_end_def getFileInfo_def getProcessInfo_def
      scenario_A_def p_sh_def byte_range_def codec_eval)

text \<open>
  Claim C4 as stated fails: the rendered data of \<^verbatim>\<open>/init(1)/sh(42)/USER\<close> has five
  bytes; at offset 5, the end of the data, the requested range is empty and \<^verbatim>\<open>read\<close>
  returns all five bytes.
\<close>

theorem C4_counterexample:
  "read scenario_A ''/init(1)/sh(42)/USER'' 64 5 = Inr (''root'' @ [CHR 0x0A])
   \<and> byte_range (''root'' @ [CHR 0x0A]) 5 64 = []"
  by (simp add: read_def split_def infoFiles_def index_from_end_def getFileInfo_def
      getProcessInfo_def scenario_A_def p_sh_def byte_range_def codec_eval)

text \<open>
  Claim C9, as amended. For every live record whose accumulated CPU time has
  minutes \<open>m \<ge> 0\<close> and seconds \<open>s \<ge> 0\<close>, the \<^verbatim>\<open>TIME\<close> attribute renders as the
  decimal minutes padded on the left with blanks (not zeros) to at least 4
  characters, a colon, and the decimal seconds padded with zeros to at least 2
  digits.
\<close>

theorem C9_render_TIME:
  assumes "readproc_by_pid snap pid = Some p"
    and "time p = m # s # rest"
    and "0 \<le> m" and "0 \<le> s"
  shows "getFileInfo snap pid ''TIME'' =
     Inr (replicate (4 - length (digits (nat m))) CHR '' '' @ digits (nat m) @ '':'' @
          replicate (2 - length (digits (nat s))) CHR ''0'' @ digits (nat s))"
  using assms
  by (simp add: getFileInfo_def getProcessInfo_def index_def fmt_d_def fmt_0d_def str_def Let_def)

theorem C9_render_TIME_witness:
  "readproc_by_pid scenario_A 42 = Some p_sh
   \<and> time p_sh = 7 # 5 # [] \<and> (0::int) \<le> 7 \<and> (0::int) \<le> 5
   \<and> getFileInfo scenario_A 42 ''TIME'' = Inr ''   7:05''"
  using C9_render_TIME [of scenario_A 42 p_sh 7 5 "[]"]
  by (simp add: scenario_A_def p_sh_def digits.simps digit_char_def numeral_eq_Suc)

text \<open>
  Claim C9 as stated fails: minutes 7 and seconds 5 render with three leading
  blanks, not as \<^verbatim>\<open>0007:05\<close>.
\<close>

theorem C9_counterexample:
  "time p_sh = [7, 5]
   \<and> getFileInfo scenario_A 42 ''TIME'' = Inr ''   7:05''
   \<and> getFileInfo scenario_A 42 ''TIME'' \<noteq> Inr ''0007:05''"
  by (simp add: getFileInfo_def getProcessInfo_def index_def fmt_d_def fmt_0d_def
      scenario_A_def p_sh_def codec_eval numeral_eq_Suc)

subsection \<open>Ancestry and absent records\<close>

text \<open>
  \<^verbatim>\<open>getattr\<close> on a path that is neither \<^verbatim>\<open>/\<close> nor \<^verbatim>\<open>/init(1)\<close> and whose final
  segment decodes to a pid: the answer is that of \<^verbatim>\<open>isExist\<close>.
\<close>

lemma getattr_process_directory:
  assumes "getPid (last (split dir CHR ''/'')) \<noteq> 0"
    and "dir \<noteq> ''/init(1)''"
    and "index_from_end (split dir CHR ''/'') 2 = Inr parent"
  shows "getattr snap dir =
     (case isExist snap parent (last (split dir CHR ''/'')) of
        Inl e \<Rightarrow> Inl e
      | Inr b \<Rightarrow> if b then Inr (PsStat_init\<lparr>st_mode := S_IFDIR OR 365, st_nlink := 1\<rparr>)
                 else Inl ENOENT)"
proof -
  have "last (split dir CHR ''/'') \<notin> set infoFiles"
    using assms(1) getPid_infoFiles by blast
  moreover have "dir \<noteq> ''/''"
    using assms(1) by (auto simp: split_root getPid_empty)
  ultimately show ?thesis
    using assms(2,3) by (simp add: getattr_def find_eq Let_def)
qed

text \<open>
  Claim C2, as amended. Let the attribute-file path be \<^verbatim>\<open>dir + '/' + info\<close>, where
  the last segment of \<^verbatim>\<open>dir\<close> decodes to a pid that has a live record whose parent
  identifier differs from the identifier decoded from the segment before it, and
  \<^verbatim>\<open>dir\<close> is not the literal \<^verbatim>\<open>/init(1)\<close>. Then the directory does not resolve:
  \<^verbatim>\<open>getattr\<close> on \<^verbatim>\<open>dir\<close> returns \<^verbatim>\<open>-ENOENT\<close>. \<^verbatim>\<open>read\<close> on the attribute path makes no
  ancestry check: it never returns \<^verbatim>\<open>-ENOENT\<close> there, and returns what the attribute
  of that pid renders to, followed by a newline.
\<close>

theorem C2_mismatched_ancestry:
  assumes "info \<in> set infoFiles"
    and "index_from_end (split dir CHR ''/'') 2 = Inr parent"
    and "getPid (last (split dir CHR ''/'')) = pid" and "pid \<noteq> 0"
    and "readproc_by_pid snap pid = Some p"
    and "ppid p \<noteq> getPid parent"
    and "dir \<noteq> ''/init(1)''"
  shows "getattr snap dir = Inl ENOENT
     \<and> read snap (dir @ ''/'' @ info) size' offset \<noteq> Inl ENOENT
     \<and> read snap (dir @ ''/'' @ info) size' offset =
         (case getFileInfo snap pid info of Inl e \<Rightarrow> Inl e | Inr txt \<Rightarrow> Inr (txt @ [CHR 0x0A]))"
proof (intro conjI)
  have "isExist snap parent (last (split dir CHR ''/'')) = Inr False"
    using assms(3,4,5,6) by (simp add: isExist_def getProcessInfo_def Let_def)
  then show "getattr snap dir = Inl ENOENT"
    using assms(2,3,4,7) by (simp add: getattr_process_directory)
next
  show r: "read snap (dir @ ''/'' @ info) size' offset =
      (case getFileInfo snap pid info of Inl e \<Rightarrow> Inl e | Inr txt \<Rightarrow> Inr (txt @ [CHR 0x0A]))"
    unfolding read_attribute_path [OF assms(1)] using assms(3,4) by simp
  have "getFileInfo snap pid info \<noteq> Inl ENOENT"
    using assms(5) by (rule getFileInfo_live_not_ENOENT)
  then show "read snap (dir @ ''/'' @ info) size' offset \<noteq> Inl ENOENT"
    unfolding r by (auto split: sum.splits)
qed

theorem C2_mismatched_ancestry_witness:
  "''USER'' \<in> set infoFiles
   \<and> index_from_end (split ''/init(1)/bogus(42)'' CHR ''/'') 2 = Inr ''init(1)''
   \<and> getPid (last (split ''/init(1)/bogus(42)'' CHR ''/'')) = 42
   \<and> readproc_by_pid scenario_D 42 = Some p_bogus
   \<and> ppid p_bogus \<noteq> getPid ''init(1)''
   \<and> getattr scenario_D ''/init(1)/bogus(42)'' = Inl ENOENT
   \<and> read scenario_D (''/init(1)/bogus(42)'' @ ''/'' @ ''USER'') 64 0 = Inr (''root'' @ [CHR 0x0A])"
  using C2_mismatched_ancestry [of "''USER''" "''/init(1)/bogus(42)''" "''init(1)''" 42
      scenario_D p_bogus 64 0]
  by (simp add: infoFiles_def split_def index_from_end_def getFileInfo_def getProcessInfo_def
      scenario_D_def p_bogus_def codec_eval)

text \<open>
  Claim C2 as stated fails: in scenario D the parent of pid 42 is pid 7, not pid 1,
  and \<^verbatim>\<open>read\<close> on \<^verbatim>\<open>/init(1)/bogus(42)/USER\<close> returns the owner of pid 42.
\<close>

theorem C2_counterexample:
  "map_option ppid (readproc_by_pid scenario_D 42) = Some 7
   \<and> getPid ''init(1)'' = 1
   \<and> read scenario_D ''/init(1)/bogus(42)/USER'' 64 0 = Inr (''root'' @ [CHR 0x0A])"
  by (simp add: read_def split_def infoFiles_def index_from_end_def getFileInfo_def
      getProcessInfo_def scenario_D_def p_bogus_def codec_eval)

text \<open>
  Claim C6, as amended. Let pid be a non-zero identifier for which the provider has
  no record, and \<^verbatim>\<open>dir\<close> a path whose final segment decodes to it. \<^verbatim>\<open>read\<close> on any
  attribute-file path \<^verbatim>\<open>dir + '/' + info\<close> returns no data: the provider's
  \<^verbatim>\<open>PID not found\<close> exception leaves \<^verbatim>\<open>read\<close>, where the claim has \<^verbatim>\<open>-ENOENT\<close>. For
  \<^verbatim>\<open>dir\<close> other than the literal \<^verbatim>\<open>/init(1)\<close>, \<^verbatim>\<open>getattr\<close> on \<^verbatim>\<open>dir\<close> returns
  \<^verbatim>\<open>-ENOENT\<close> when the segment before the last does not decode, and lets the same
  exception escape when it does.
\<close>

theorem C6_absent_record:
  assumes "info \<in> set infoFiles"
    and "getPid (last (split dir CHR ''/'')) = pid" and "pid \<noteq> 0"
    and "readproc_by_pid snap pid = None"
  shows "read snap (dir @ ''/'' @ info) size' offset = Inl (Raised PidNotFound)
     \<and> (dir \<noteq> ''/init(1)'' \<and> index_from_end (split dir CHR ''/'') 2 = Inr parent
          \<longrightarrow> getattr snap dir =
                (if getPid parent = 0 then Inl ENOENT else Inl (Raised PidNotFound)))"
proof (intro conjI impI)
  show "read snap (dir @ ''/'' @ info) size' offset = Inl (Raised PidNotFound)"
    unfolding read_attribute_path [OF assms(1)]
    using assms(2,3) getFileInfo_absent [OF assms(4)] by simp
next
  assume a: "dir \<noteq> ''/init(1)'' \<and> index_from_end (split dir CHR ''/'') 2 = Inr parent"
  have "isExist snap parent (last (split dir CHR ''/'')) =
      (if getPid parent = 0 then Inr False else Inl (Raised PidNotFound))"
    using assms(2,3,4) by (simp add: isExist_def getProcessInfo_def Let_def)
  then show "getattr snap dir =
      (if getPid parent = 0 then Inl ENOENT else Inl (Raised PidNotFound))"
    using a assms(2,3) by (simp add: getattr_process_directory)
qed

theorem C6_absent_record_witness:
  "''CPU'' \<in> set infoFiles
   \<and> getPid (last (split ''/init(1)/sh(42)'' CHR ''/'')) = 42
   \<and> readproc_by_pid scenario_B 42 = None
   \<and> index_from_end (split ''/init(1)/sh(42)'' CHR ''/'') 2 = Inr ''init(1)''
   \<and> read scenario_B (''/init(1)/sh(42)'' @ ''/'' @ ''CPU'') 64 0 = Inl (Raised PidNotFound)
   \<and> getattr scenario_B ''/init(1)/sh(42)'' = Inl (Raised PidNotFound)"
  using C6_absent_record [of "''CPU''" "''/init(1)/sh(42)''" 42 scenario_B 64 0 "''init(1)''"]
  by (simp add: infoFiles_def split_def index_from_end_def scenario_B_def codec_eval)

text \<open>
  Claim C6 as stated fails: in scenario B the provider has no record of pid 42, and
  \<^verbatim>\<open>read\<close> on \<^verbatim>\<open>/init(1)/sh(42)/CPU\<close> ends in the provider's exception, not in
  \<^verbatim>\<open>-ENOENT\<close>.
\<close>

theorem C6_counterexample:
  "readproc_by_pid scenario_B 42 = None
   \<and> read scenario_B ''/init(1)/sh(42)/CPU'' 64 0 = Inl (Raised PidNotFound)"
  by (simp add: read_def split_def infoFiles_def index_from_end_def getFileInfo_def
      getProcessInfo_def scenario_B_def codec_eval)

end
